theory Spec2Isabelle
  imports Main
begin

section \<open>Python text values\<close>

text \<open>
  A Python \<open>str\<close> is a sequence of Unicode code points, and \<open>len\<close> counts code points.
  A code point is modelled by its number, a text value by the list of its code points.
  ASCII literals of the source are written through \<open>py_str\<close>.
\<close>

type_synonym codepoint = nat
type_synonym pystr = "codepoint list"

definition py_str :: "string \<Rightarrow> pystr" where
  "py_str s = map of_char s"

text \<open>
  The whitespace class of the Python runtime: \<open>str.strip()\<close> without argument and the
  escape \<open>\s\<close> of a \<open>str\<close> pattern both test a code point with the same predicate
  (\<open>str.isspace\<close> on one character). Its members are U+0009..U+000D, U+001C..U+001F,
  U+0020, U+0085, U+00A0, U+1680, U+2000..U+200A, U+2028, U+2029, U+202F, U+205F and
  U+3000.
\<close>

definition py_isspace :: "codepoint \<Rightarrow> bool" where
  "py_isspace c \<longleftrightarrow>
     (0x09 \<le> c \<and> c \<le> 0x0D) \<or> (0x1C \<le> c \<and> c \<le> 0x20) \<or>
     c = 0x85 \<or> c = 0xA0 \<or> c = 0x1680 \<or> (0x2000 \<le> c \<and> c \<le> 0x200A) \<or>
     c = 0x2028 \<or> c = 0x2029 \<or> c = 0x202F \<or> c = 0x205F \<or> c = 0x3000"

definition ascii_lower :: "codepoint \<Rightarrow> bool" where
  "ascii_lower c \<longleftrightarrow> of_char CHR ''a'' \<le> c \<and> c \<le> of_char CHR ''z''"

definition ascii_upper :: "codepoint \<Rightarrow> bool" where
  "ascii_upper c \<longleftrightarrow> of_char CHR ''A'' \<le> c \<and> c \<le> of_char CHR ''Z''"

definition ascii_digit :: "codepoint \<Rightarrow> bool" where
  "ascii_digit c \<longleftrightarrow> of_char CHR ''0'' \<le> c \<and> c \<le> of_char CHR ''9''"

definition ascii_letter :: "codepoint \<Rightarrow> bool" where
  "ascii_letter c \<longleftrightarrow> ascii_lower c \<or> ascii_upper c"

text \<open>
  \<open>re.sub(pattern, repl, value)\<close> for a pattern that is one character class: the scan
  goes left to right, a code point in the class is replaced by \<open>repl\<close>, any other code
  point is copied.
\<close>

fun re_sub_class :: "(codepoint \<Rightarrow> bool) \<Rightarrow> pystr \<Rightarrow> pystr \<Rightarrow> pystr" where
  "re_sub_class cls repl [] = []"
| "re_sub_class cls repl (c # cs) =
     (if cls c then repl @ re_sub_class cls repl cs else c # re_sub_class cls repl cs)"

text \<open>\<open>str.strip()\<close>: drop the leading whitespace, then the trailing whitespace.\<close>

definition py_strip :: "pystr \<Rightarrow> pystr" where
  "py_strip s = rev (dropWhile py_isspace (rev (dropWhile py_isspace s)))"

text \<open>\<open>sep.join(parts)\<close>.\<close>

fun str_join :: "pystr \<Rightarrow> pystr list \<Rightarrow> pystr" where
  "str_join sep [] = []"
| "str_join sep [p] = p"
| "str_join sep (p # q # ps) = p @ sep @ str_join sep (q # ps)"

text \<open>The exceptions the program can raise; a raise is the \<open>Inl\<close> of a result.\<close>

datatype error = OverflowError | OSError

text \<open>
  The range of the interpreter's index type \<open>Py_ssize_t\<close>, on a 64-bit build.
\<close>

definition PY_SSIZE_T_MAX :: int where
  "PY_SSIZE_T_MAX = 2 ^ 63 - 1"

definition PY_SSIZE_T_MIN :: int where
  "PY_SSIZE_T_MIN = - (2 ^ 63)"

text \<open>
  \<open>xs * n\<close> on a list. The count is first converted to the index type, and a count
  outside its range raises \<open>OverflowError\<close>. Within the range the result is \<open>n\<close>
  copies of \<open>xs\<close>, none when \<open>n\<close> is zero or negative. Memory is unbounded here:
  \<open>MemoryError\<close>, which depends on the machine, is not a branch.
\<close>

definition list_repeat :: "'a list \<Rightarrow> int \<Rightarrow> error + 'a list" where
  "list_repeat xs n =
     (if n < PY_SSIZE_T_MIN \<or> PY_SSIZE_T_MAX < n then Inl OverflowError
      else Inr (concat (replicate (nat n) xs)))"

section \<open>utils/helpers.py\<close>

text \<open>The negated class \<open>[^a-zA-Z0-9\s]\<close> of \<open>sanitize_string\<close>.\<close>

definition special_char :: "codepoint \<Rightarrow> bool" where
  "special_char c \<longleftrightarrow> \<not> (ascii_lower c \<or> ascii_upper c \<or> ascii_digit c \<or> py_isspace c)"

definition sanitize_string :: "pystr \<Rightarrow> pystr" where
  "sanitize_string v = py_strip (re_sub_class special_char [] v)"

text \<open>\<open>value: T | None\<close> is an optional value; \<open>None\<close> is the absent marker.\<close>

definition validate_input :: "'a option \<Rightarrow> 'a \<Rightarrow> 'a" where
  "validate_input v d = (if v \<noteq> None then the v else d)"

section \<open>core/main.py\<close>

definition example_function :: "pystr \<Rightarrow> int \<Rightarrow> error + pystr" where
  "example_function name count =
     (let greeting = py_str ''Hello, '' @ name @ py_str ''!''
      in case list_repeat [greeting] count of
           Inl e \<Rightarrow> Inl e
         | Inr parts \<Rightarrow> Inr (str_join (py_str '' '') parts))"

text \<open>
  The only effect of the program is on standard output. The world holds the text that
  has reached standard output, the text written into the stream's buffer and not yet
  flushed, and how the stream behaves:
  \<^item> \<open>Open\<close>: writes and flushes succeed;
  \<^item> \<open>Write_fails\<close>: the stream passes each write on at once and the write raises
    \<open>OSError\<close> (an unbuffered stream on a broken pipe or a full device);
  \<^item> \<open>Flush_fails\<close>: writes go to the buffer and succeed, the flush raises
    \<open>OSError\<close> (a buffered stream on a broken pipe or a full device);
  \<^item> \<open>Absent\<close>: the descriptor was closed at start, \<open>sys.stdout\<close> is \<open>None\<close> and
    \<open>print\<close> does nothing.
\<close>

datatype stream = Open | Write_fails | Flush_fails | Absent

record world =
  stdout :: pystr
  pending :: pystr
  out_stream :: stream

text \<open>\<open>print(s)\<close> writes \<open>s\<close> and the line end \<open>\n\<close>.\<close>

definition py_print :: "pystr \<Rightarrow> world \<Rightarrow> error + world" where
  "py_print s w =
     (case out_stream w of
        Absent \<Rightarrow> Inr w
      | Write_fails \<Rightarrow> Inl OSError
      | _ \<Rightarrow> Inr (w\<lparr>pending := pending w @ s @ py_str [CHR 0x0A]\<rparr>))"

text \<open>The flush of standard output when the interpreter shuts down.\<close>

definition flush_stdout :: "world \<Rightarrow> error + world" where
  "flush_stdout w =
     (if pending w = [] then Inr w
      else if out_stream w = Open
        then Inr (w\<lparr>stdout := stdout w @ pending w, pending := []\<rparr>)
      else Inl OSError)"

text \<open>
  \<open>main\<close> calls \<open>example_function\<close> with the default \<open>count = 1\<close> and prints the
  result; an exception of either call leaves \<open>main\<close>.
\<close>

definition main :: "world \<Rightarrow> error + world" where
  "main w =
     (case example_function (py_str ''World'') 1 of
        Inl e \<Rightarrow> Inl e
      | Inr s \<Rightarrow> py_print s w)"

text \<open>
  Running the module: the body calls \<open>main()\<close>. The status is 0 when \<open>main\<close> returns
  and 1 when an exception leaves it; then the interpreter flushes standard output, and a
  flush that fails makes the status 120. The result is the status and the world left
  behind.
\<close>

definition run_module :: "world \<Rightarrow> int \<times> world" where
  "run_module w =
     (let (status, w') = (case main w of Inl e \<Rightarrow> (1, w) | Inr w1 \<Rightarrow> (0, w1))
      in case flush_stdout w' of
           Inl e \<Rightarrow> (120, w')
         | Inr w'' \<Rightarrow> (status, w''))"

section \<open>The specification's vocabulary\<close>

text \<open>
  The permitted set in the specification's words: ASCII letters, ASCII digits and
  whitespace. It is stated apart from the pattern of \<open>sanitize_string\<close>, which names the
  characters to remove.
\<close>

definition permitted :: "codepoint \<Rightarrow> bool" where
  "permitted c \<longleftrightarrow> ascii_letter c \<or> ascii_digit c \<or> py_isspace c"


definition is_ascii :: "codepoint \<Rightarrow> bool" where
  "is_ascii c \<longleftrightarrow> c < 128"

section \<open>Substitution and stripping\<close>

lemma special_char_permitted: "special_char c \<longleftrightarrow> \<not> permitted c"
  by (simp add: special_char_def permitted_def ascii_letter_def)

lemma re_sub_class_delete: "re_sub_class cls [] s = filter (\<lambda>c. \<not> cls c) s"
  by (induction s) simp_all

lemma sanitize_string_filter: "sanitize_string v = py_strip (filter permitted v)"
  by (simp add: sanitize_string_def re_sub_class_delete special_char_permitted)

lemma set_py_strip: "set (py_strip s) \<subseteq> set s"
proof -
  have "set (py_strip s) \<subseteq> set (dropWhile py_isspace s)"
    unfolding py_strip_def using set_dropWhileD by fastforce
  also have "\<dots> \<subseteq> set s"
    using set_dropWhileD by fastforce
  finally show ?thesis .
qed

lemma length_py_strip: "length (py_strip s) \<le> length s"
proof -
  have "length (py_strip s) \<le> length (dropWhile py_isspace s)"
    unfolding py_strip_def
    using length_dropWhile_le [of py_isspace "rev (dropWhile py_isspace s)"] by simp
  also have "\<dots> \<le> length s"
    by (rule length_dropWhile_le)
  finally show ?thesis .
qed

text \<open>What \<open>py_strip\<close> removes is a run of whitespace on each side.\<close>

lemma py_strip_decomp:
  "s = takeWhile py_isspace s @ py_strip s
       @ rev (takeWhile py_isspace (rev (dropWhile py_isspace s)))"
proof -
  let ?t = "dropWhile py_isspace s"
  let ?r = "rev ?t"
  have "rev (takeWhile py_isspace ?r @ dropWhile py_isspace ?r)
          = rev (dropWhile py_isspace ?r) @ rev (takeWhile py_isspace ?r)"
    by (rule rev_append)
  then have "rev ?r = py_strip s @ rev (takeWhile py_isspace ?r)"
    unfolding takeWhile_dropWhile_id py_strip_def .
  then have "?t = py_strip s @ rev (takeWhile py_isspace ?r)"
    by (simp only: rev_rev_ident)
  moreover have "s = takeWhile py_isspace s @ ?t"
    by simp
  ultimately show ?thesis by simp
qed

lemma py_strip_sides:
  "\<exists>pre post. s = pre @ py_strip s @ post
      \<and> (\<forall>c\<in>set pre. py_isspace c) \<and> (\<forall>c\<in>set post. py_isspace c)"
proof (intro exI conjI)
  show "s = takeWhile py_isspace s @ py_strip s
          @ rev (takeWhile py_isspace (rev (dropWhile py_isspace s)))"
    by (rule py_strip_decomp)
  show "\<forall>c\<in>set (takeWhile py_isspace s). py_isspace c"
    using set_takeWhileD by fastforce
  show "\<forall>c\<in>set (rev (takeWhile py_isspace (rev (dropWhile py_isspace s)))). py_isspace c"
    using set_takeWhileD by fastforce
qed

text \<open>A stripped text that is not empty starts and ends with a character that is not whitespace.\<close>

lemma py_strip_ends:
  assumes "py_strip s \<noteq> []"
  shows "\<not> py_isspace (hd (py_strip s))" and "\<not> py_isspace (last (py_strip s))"
proof -
  let ?t = "dropWhile py_isspace s"
  let ?u = "dropWhile py_isspace (rev ?t)"
  have u: "?u \<noteq> []" using assms by (simp add: py_strip_def)
  then have hu: "\<not> py_isspace (hd ?u)" by (rule hd_dropWhile)
  have "last (py_strip s) = hd ?u"
    using u by (simp add: py_strip_def last_rev)
  then show "\<not> py_isspace (last (py_strip s))" using hu by simp
  have t: "?t \<noteq> []"
  proof
    assume "?t = []"
    then have "?u = []" by (simp only: rev.simps dropWhile.simps)
    with u show False by contradiction
  qed
  then have ht: "\<not> py_isspace (hd ?t)" by (rule hd_dropWhile)
  have "hd ?u \<in> set (rev ?t)"
    using u set_dropWhileD [of "hd ?u" py_isspace "rev ?t"] by simp
  then have "last ?u = last (rev ?t)" using hu by (rule dropWhile_last)
  then have "hd (py_strip s) = hd ?t"
    using u t by (simp add: py_strip_def hd_rev last_rev)
  then show "\<not> py_isspace (hd (py_strip s))" using ht by simp
qed

lemma py_strip_fixed:
  assumes "s = [] \<or> (\<not> py_isspace (hd s) \<and> \<not> py_isspace (last s))"
  shows "py_strip s = s"
proof (cases "s = []")
  case True
  then show ?thesis by (simp add: py_strip_def)
next
  case False
  with assms have h: "\<not> py_isspace (hd s)" and l: "\<not> py_isspace (last s)" by simp_all
  have "dropWhile py_isspace s = s"
    using h by (simp add: dropWhile_eq_self_iff)
  moreover have "dropWhile py_isspace (rev s) = rev s"
    using l False by (simp add: dropWhile_eq_self_iff hd_rev)
  ultimately show ?thesis by (simp add: py_strip_def)
qed

lemma py_strip_idem: "py_strip (py_strip s) = py_strip s"
  using py_strip_ends [of s] by (intro py_strip_fixed) blast

lemma filter_py_strip:
  assumes "\<forall>c\<in>set s. P c"
  shows "filter P (py_strip s) = py_strip s"
  using assms set_py_strip [of s] by (intro filter_True) blast

section \<open>Joining repeated copies\<close>

lemma list_repeat_single:
  "PY_SSIZE_T_MIN \<le> n \<Longrightarrow> n \<le> PY_SSIZE_T_MAX \<Longrightarrow> list_repeat [g] n = Inr (replicate (nat n) g)"
  by (simp add: list_repeat_def)



lemma example_function_join:
  assumes "PY_SSIZE_T_MIN \<le> n" and "n \<le> PY_SSIZE_T_MAX"
  shows "example_function name n =
     Inr (str_join (py_str '' '') (replicate (nat n) (py_str ''Hello, '' @ name @ py_str ''!'')))"
  using assms by (simp add: example_function_def list_repeat_single)

lemma example_function_overflow:
  assumes "n < PY_SSIZE_T_MIN \<or> PY_SSIZE_T_MAX < n"
  shows "example_function name n = Inl OverflowError"
  using assms by (auto simp add: example_function_def list_repeat_def)

lemma example_function_World: "example_function (py_str ''World'') 1 = Inr (py_str ''Hello, World!'')"
  by (simp add: example_function_join PY_SSIZE_T_MIN_def PY_SSIZE_T_MAX_def py_str_def)

section \<open>Evaluating the character classes\<close>

lemmas char_class_defs = py_str_def special_char_def py_isspace_def
  ascii_lower_def ascii_upper_def ascii_digit_def ascii_letter_def permitted_def is_ascii_def

section \<open>The claims\<close>

text \<open>
  Claim C1. For every text \<open>x\<close>, each character of \<open>sanitize_string x\<close> is an ASCII
  letter, an ASCII digit or a whitespace character, and \<open>sanitize_string x\<close> neither
  starts nor ends with whitespace.
\<close>

theorem sanitize_string_charset:
  "(\<forall>c\<in>set (sanitize_string x). ascii_letter c \<or> ascii_digit c \<or> py_isspace c)
   \<and> (sanitize_string x \<noteq> [] \<longrightarrow>
        \<not> py_isspace (hd (sanitize_string x)) \<and> \<not> py_isspace (last (sanitize_string x)))"
proof (intro conjI impI ballI)
  fix c
  assume "c \<in> set (sanitize_string x)"
  then have "c \<in> set (filter permitted x)"
    using set_py_strip [of "filter permitted x"] by (auto simp only: sanitize_string_filter)
  then show "ascii_letter c \<or> ascii_digit c \<or> py_isspace c"
    by (simp add: permitted_def)
next
  assume "sanitize_string x \<noteq> []"
  then have ne: "py_strip (filter permitted x) \<noteq> []"
    by (simp add: sanitize_string_filter)
  show "\<not> py_isspace (hd (sanitize_string x))"
    unfolding sanitize_string_filter using ne by (rule py_strip_ends(1))
  show "\<not> py_isspace (last (sanitize_string x))"
    unfolding sanitize_string_filter using ne by (rule py_strip_ends(2))
qed

theorem sanitize_string_charset_witness:
  "sanitize_string (py_str ''  a!b7  '') \<noteq> []
   \<and> list_all (\<lambda>c. ascii_letter c \<or> ascii_digit c \<or> py_isspace c)
        (sanitize_string (py_str ''  a!b7  ''))
   \<and> \<not> py_isspace (hd (sanitize_string (py_str ''  a!b7  '')))
   \<and> \<not> py_isspace (last (sanitize_string (py_str ''  a!b7  '')))"
proof -
  have ne: "sanitize_string (py_str ''  a!b7  '') \<noteq> []"
    by (simp add: sanitize_string_def py_strip_def char_class_defs)
  from sanitize_string_charset [of "py_str ''  a!b7  ''"] ne show ?thesis
    by (simp add: list_all_iff)
qed

text \<open>
  Claim C2. Sanitizing is idempotent: \<open>sanitize_string (sanitize_string x)\<close> is
  \<open>sanitize_string x\<close> for every text \<open>x\<close>, so a text that is the result of
  sanitizing comes back unchanged.
\<close>

theorem sanitize_string_idempotent:
  "sanitize_string (sanitize_string x) = sanitize_string x"
  by (simp add: sanitize_string_filter filter_py_strip py_strip_idem)

text \<open>
  Claim C3. \<open>sanitize_string x\<close> is \<open>x\<close> with exactly the characters outside the
  permitted set deleted (the kept ones in their order, which is what \<open>filter\<close> leaves),
  then trimmed: what is cut off on either side is whitespace only, and the result neither
  starts nor ends with whitespace. Whitespace inside is kept as it is, also two spaces in
  a row; \<open>Hello World\<close> is returned as it is.
\<close>

theorem sanitize_string_delete_then_trim:
  "(\<exists>pre post. filter permitted x = pre @ sanitize_string x @ post
       \<and> (\<forall>c\<in>set pre. py_isspace c) \<and> (\<forall>c\<in>set post. py_isspace c))
   \<and> (sanitize_string x \<noteq> [] \<longrightarrow>
        \<not> py_isspace (hd (sanitize_string x)) \<and> \<not> py_isspace (last (sanitize_string x)))
   \<and> sanitize_string (py_str ''Hello World'') = py_str ''Hello World''
   \<and> sanitize_string (py_str ''a  b'') = py_str ''a  b''"
proof (intro conjI impI)
  show "\<exists>pre post. filter permitted x = pre @ sanitize_string x @ post
       \<and> (\<forall>c\<in>set pre. py_isspace c) \<and> (\<forall>c\<in>set post. py_isspace c)"
    unfolding sanitize_string_filter by (rule py_strip_sides)
next
  assume "sanitize_string x \<noteq> []"
  then have ne: "py_strip (filter permitted x) \<noteq> []"
    by (simp add: sanitize_string_filter)
  show "\<not> py_isspace (hd (sanitize_string x))"
    unfolding sanitize_string_filter using ne by (rule py_strip_ends(1))
  show "\<not> py_isspace (last (sanitize_string x))"
    unfolding sanitize_string_filter using ne by (rule py_strip_ends(2))
next
  show "sanitize_string (py_str ''Hello World'') = py_str ''Hello World''"
    by (simp add: sanitize_string_def py_strip_def char_class_defs)
  show "sanitize_string (py_str ''a  b'') = py_str ''a  b''"
    by (simp add: sanitize_string_def py_strip_def char_class_defs)
qed

theorem sanitize_string_delete_then_trim_witness:
  "\<exists>pre post. filter permitted (py_str '' a! b? '') = pre @ sanitize_string (py_str '' a! b? '') @ post
       \<and> list_all py_isspace pre \<and> list_all py_isspace post
       \<and> sanitize_string (py_str '' a! b? '') = py_str ''a b''
       \<and> \<not> py_isspace (hd (sanitize_string (py_str '' a! b? '')))
       \<and> \<not> py_isspace (last (sanitize_string (py_str '' a! b? '')))"
proof -
  have v: "sanitize_string (py_str '' a! b? '') = py_str ''a b''"
    by (simp add: sanitize_string_def py_strip_def char_class_defs)
  have ne: "py_str ''a b'' \<noteq> []"
    by (simp add: py_str_def)
  from sanitize_string_delete_then_trim [of "py_str '' a! b? ''"] ne show ?thesis
    unfolding v list_all_iff by blast
qed




text \<open>
  Claim C5, amended. For every name and every count that is zero or negative and in the
  index range (\<open>- 2^63 \<le> count\<close>), \<open>example_function name count\<close> returns the empty
  text.
\<close>

theorem example_function_nonpositive:
  "PY_SSIZE_T_MIN \<le> count \<Longrightarrow> count \<le> 0 \<Longrightarrow> example_function name count = Inr []"
proof -
  assume lo: "PY_SSIZE_T_MIN \<le> count" and np: "count \<le> 0"
  from np have "count \<le> PY_SSIZE_T_MAX"
    by (simp add: PY_SSIZE_T_MAX_def)
  with lo np show ?thesis
    by (simp add: example_function_join)
qed

theorem example_function_nonpositive_witness:
  "PY_SSIZE_T_MIN \<le> 0 \<and> PY_SSIZE_T_MIN \<le> - 2 \<and> PY_SSIZE_T_MIN \<le> - (2 ^ 63)
   \<and> example_function (py_str ''Bob'') 0 = Inr []
   \<and> example_function (py_str ''Bob'') (- 2) = Inr []
   \<and> example_function (py_str ''Bob'') (- (2 ^ 63)) = Inr []"
  using example_function_nonpositive [of 0 "py_str ''Bob''"]
    example_function_nonpositive [of "- 2" "py_str ''Bob''"]
    example_function_nonpositive [of "- (2 ^ 63)" "py_str ''Bob''"]
  by (simp add: PY_SSIZE_T_MIN_def)

text \<open>
  The claim as first stated, for every negative count, fails at \<open>- 2^63 - 1\<close>: the call
  raises \<open>OverflowError\<close>.
\<close>

theorem example_function_nonpositive_counterexample:
  "(- (2 ^ 63) - 1 :: int) \<le> 0
   \<and> example_function (py_str ''Bob'') (- (2 ^ 63) - 1) = Inl OverflowError"
  by (simp add: example_function_overflow PY_SSIZE_T_MIN_def)

text \<open>
  Claim C6. \<open>validate_input\<close> returns the value itself when one is present and the
  default when the value is \<open>None\<close>; it is defined on every input.
\<close>

theorem validate_input_default_or:
  "validate_input (Some v) d = v \<and> validate_input None d = d"
  by (simp add: validate_input_def)

text \<open>
  Claim C7, amended. The text that \<open>main\<close> prints, \<open>example_function\<close> on \<open>World\<close>,
  is \<open>Hello, World!\<close>. When standard output is open and accepts what is written,
  \<open>main\<close> returns, the run ends with status 0, and standard output has received what
  was pending, then \<open>Hello, World!\<close> and the line end that \<open>print\<close> adds.
\<close>

theorem main_prints_hello_world:
  "example_function (py_str ''World'') 1 = Inr (py_str ''Hello, World!'')
   \<and> (out_stream w = Open \<longrightarrow>
        main w = Inr (w\<lparr>pending := pending w @ py_str ''Hello, World!'' @ py_str [CHR 0x0A]\<rparr>)
        \<and> run_module w
            = (0, w\<lparr>stdout := stdout w @ pending w @ py_str ''Hello, World!'' @ py_str [CHR 0x0A],
                     pending := []\<rparr>))"
proof (intro conjI impI)
  show "example_function (py_str ''World'') 1 = Inr (py_str ''Hello, World!'')"
    by (rule example_function_World)
next
  assume op: "out_stream w = Open"
  then show m: "main w
      = Inr (w\<lparr>pending := pending w @ py_str ''Hello, World!'' @ py_str [CHR 0x0A]\<rparr>)"
    by (simp add: main_def example_function_World py_print_def)
  from op show "run_module w
      = (0, w\<lparr>stdout := stdout w @ pending w @ py_str ''Hello, World!'' @ py_str [CHR 0x0A],
               pending := []\<rparr>)"
    by (simp add: run_module_def m flush_stdout_def py_str_def)
qed

theorem main_prints_hello_world_witness:
  "out_stream \<lparr>stdout = [], pending = [], out_stream = Open\<rparr> = Open
   \<and> run_module \<lparr>stdout = [], pending = [], out_stream = Open\<rparr>
       = (0, \<lparr>stdout = py_str ''Hello, World!'' @ py_str [CHR 0x0A], pending = [],
               out_stream = Open\<rparr>)"
  using main_prints_hello_world [of "\<lparr>stdout = [], pending = [], out_stream = Open\<rparr>"]
  by simp

text \<open>
  The claim as first stated fails where standard output cannot be written: a write that
  raises leaves status 1 and a flush that raises leaves status 120, with nothing on
  standard output; and on an open stream what is written is not \<open>Hello, World!\<close> alone,
  the line end follows it.
\<close>

theorem main_prints_hello_world_counterexample:
  "run_module \<lparr>stdout = [], pending = [], out_stream = Write_fails\<rparr>
       = (1, \<lparr>stdout = [], pending = [], out_stream = Write_fails\<rparr>)
   \<and> fst (run_module \<lparr>stdout = [], pending = [], out_stream = Flush_fails\<rparr>) = 120
   \<and> stdout (snd (run_module \<lparr>stdout = [], pending = [], out_stream = Flush_fails\<rparr>)) = []
   \<and> stdout (snd (run_module \<lparr>stdout = [], pending = [], out_stream = Open\<rparr>))
       \<noteq> py_str ''Hello, World!''"
proof -
  have wf: "main \<lparr>stdout = [], pending = [], out_stream = Write_fails\<rparr> = Inl OSError"
    by (simp add: main_def example_function_World py_print_def)
  have ff: "main \<lparr>stdout = [], pending = [], out_stream = Flush_fails\<rparr>
      = Inr \<lparr>stdout = [], pending = py_str ''Hello, World!'' @ py_str [CHR 0x0A],
             out_stream = Flush_fails\<rparr>"
    by (simp add: main_def example_function_World py_print_def)
  have op: "main \<lparr>stdout = [], pending = [], out_stream = Open\<rparr>
      = Inr \<lparr>stdout = [], pending = py_str ''Hello, World!'' @ py_str [CHR 0x0A],
             out_stream = Open\<rparr>"
    by (simp add: main_def example_function_World py_print_def)
  show ?thesis
    by (simp add: run_module_def wf ff op flush_stdout_def py_str_def)
qed

text \<open>
  Claim C8. Sanitizing never lengthens: \<open>sanitize_string x\<close> has at most as many
  characters as \<open>x\<close>.
\<close>

theorem sanitize_string_length_le: "length (sanitize_string x) \<le> length x"
proof -
  have "length (sanitize_string x) \<le> length (filter permitted x)"
    unfolding sanitize_string_filter by (rule length_py_strip)
  also have "\<dots> \<le> length x"
    by (rule length_filter_le)
  finally show ?thesis .
qed




text \<open>
  Claim C10. The result of \<open>sanitize_string\<close> is not always ASCII: the no-break space
  U+00A0 between \<open>a\<close> and \<open>b\<close> is whitespace for the pattern, is not ASCII, and
  stays in the result.
\<close>

theorem sanitize_string_keeps_nbsp:
  "sanitize_string (py_str ''a'' @ [0xA0] @ py_str ''b'') = py_str ''a'' @ [0xA0] @ py_str ''b''
   \<and> py_isspace 0xA0 \<and> \<not> is_ascii 0xA0"
  by (simp add: sanitize_string_def py_strip_def char_class_defs)

end
